theory Spec2Isabelle
  imports Complex_Main
begin

section \<open>Values, exceptions and numpy arithmetic\<close>

text \<open>
  The module \<^verbatim>\<open>concrete.py\<close> computes with Python floats and numpy float64 scalars.
  A finite float is modelled as a \<^typ>\<open>real\<close> (no rounding, no overflow); the special
  values numpy produces instead of raising (division by zero, square root of a negative
  number) are kept as constructors, so that a non-finite result is visible in the model.
  Signed zeros are not distinguished.

  Exceptions are values. \<open>TemperatureException\<close> is the plain
  \<^verbatim>\<open>Exception('The temperature should be between 0 and 80 degrees C')\<close> of both
  \<^verbatim>\<open>get_t_T\<close> methods. \<open>NameError\<close> is what Python raises when a function body
  reads a name that is bound neither locally nor in the module: the module's only import
  is \<^verbatim>\<open>import numpy as np\<close>.
\<close>

datatype exc =
  KeyError | IndexError | NameError | ValueError | ZeroDivisionError | TemperatureException

datatype npfloat = Fin real | PInf | NInf | NaN

text \<open>\<^verbatim>\<open>a / b\<close> with a numpy divisor: a warning, never an exception.\<close>

definition np_div :: "real \<Rightarrow> real \<Rightarrow> npfloat" where
  "np_div a b =
     (if b \<noteq> 0 then Fin (a / b)
      else if 0 < a then PInf
      else if a < 0 then NInf
      else NaN)"

fun np_sqrt :: "npfloat \<Rightarrow> npfloat" where
  "np_sqrt (Fin x) = (if 0 \<le> x then Fin (sqrt x) else NaN)"
| "np_sqrt PInf = PInf"
| "np_sqrt NInf = NaN"
| "np_sqrt NaN = NaN"

fun np_exp :: "npfloat \<Rightarrow> npfloat" where
  "np_exp (Fin x) = Fin (exp x)"
| "np_exp PInf = PInf"
| "np_exp NInf = Fin 0"
| "np_exp NaN = NaN"

fun np_sub :: "npfloat \<Rightarrow> npfloat \<Rightarrow> npfloat" where
  "np_sub NaN y = NaN"
| "np_sub x NaN = NaN"
| "np_sub (Fin a) (Fin b) = Fin (a - b)"
| "np_sub (Fin a) PInf = NInf"
| "np_sub (Fin a) NInf = PInf"
| "np_sub PInf PInf = NaN"
| "np_sub PInf y = PInf"
| "np_sub NInf NInf = NaN"
| "np_sub NInf y = NInf"

fun np_mul :: "npfloat \<Rightarrow> npfloat \<Rightarrow> npfloat" where
  "np_mul NaN y = NaN"
| "np_mul x NaN = NaN"
| "np_mul (Fin a) (Fin b) = Fin (a * b)"
| "np_mul (Fin a) PInf = (if 0 < a then PInf else if a < 0 then NInf else NaN)"
| "np_mul (Fin a) NInf = (if 0 < a then NInf else if a < 0 then PInf else NaN)"
| "np_mul PInf (Fin b) = (if 0 < b then PInf else if b < 0 then NInf else NaN)"
| "np_mul NInf (Fin b) = (if 0 < b then NInf else if b < 0 then PInf else NaN)"
| "np_mul PInf PInf = PInf"
| "np_mul PInf NInf = NInf"
| "np_mul NInf PInf = NInf"
| "np_mul NInf NInf = PInf"

text \<open>\<^verbatim>\<open>x ** p\<close> for a numpy scalar \<open>x\<close> and a positive, non-integer exponent \<open>p\<close>.\<close>

fun np_pow :: "npfloat \<Rightarrow> real \<Rightarrow> npfloat" where
  "np_pow (Fin x) p = (if 0 \<le> x then Fin (x powr p) else NaN)"
| "np_pow PInf p = PInf"
| "np_pow NInf p = PInf"
| "np_pow NaN p = NaN"

text \<open>Subscription of a dict (\<^verbatim>\<open>d[k]\<close>) and of a list (\<^verbatim>\<open>xs[i]\<close>, \<open>i \<ge> 0\<close>).\<close>

definition subscript :: "(string \<times> 'a) list \<Rightarrow> string \<Rightarrow> exc + 'a" where
  "subscript d k = (case map_of d k of None \<Rightarrow> Inl KeyError | Some v \<Rightarrow> Inr v)"

definition item :: "'a list \<Rightarrow> nat \<Rightarrow> exc + 'a" where
  "item xs i = (if i < length xs then Inr (xs ! i) else Inl IndexError)"

text \<open>Sequencing: the first exception raised ends the evaluation.\<close>

definition and_then :: "exc + 'a \<Rightarrow> ('a \<Rightarrow> exc + 'b) \<Rightarrow> exc + 'b" where
  "and_then r f = (case r of Inl e \<Rightarrow> Inl e | Inr v \<Rightarrow> f v)"

section \<open>Concrete2004\<close>

definition F_CK_DICT_2004 :: "(string \<times> real) list" where
  "F_CK_DICT_2004 =
     [(''C12/15'', 12.0), (''C16/20'', 16.0), (''C20/25'', 20.0),
      (''C25/30'', 25.0), (''C30/37'', 30.0), (''C35/45'', 35.0),
      (''C40/50'', 40.0), (''C45/55'', 45.0), (''C50/60'', 50.0),
      (''C55/67'', 55.0), (''C60/75'', 60.0), (''C70/85'', 70.0),
      (''C80/95'', 80.0), (''C90/105'', 90.0)]"

definition S_DICT_2004 :: "(string \<times> real) list" where
  "S_DICT_2004 = [(''S'', 0.38), (''N'', 0.25), (''R'', 0.20)]"

record Concrete2004 =
  strength_class_2004 :: string
  cement_class_2004 :: string
  curing_temperature_2004 :: real

definition get_fcm_2004 :: "real \<Rightarrow> real" where
  "get_fcm_2004 f_ck = f_ck + 8.0"

text \<open>
  \<^verbatim>\<open>22e3*(f_cm/10)**0.3\<close>. The power of a Python float is real for a base \<open>\<ge> 0\<close>
  (a negative base gives a complex number, which no caller in the module produces: the
  argument is always an entry of the strength table).
\<close>

definition get_Ecm_2004 :: "real \<Rightarrow> real" where
  "get_Ecm_2004 f_cm = 22000 * (f_cm / 10) powr 0.3"

definition get_fcm_t_2004 :: "npfloat \<Rightarrow> real \<Rightarrow> npfloat" where
  "get_fcm_t_2004 beta_cc_t f_cm = np_mul beta_cc_t (Fin f_cm)"

definition get_fck_t_2004 :: "npfloat \<Rightarrow> npfloat" where
  "get_fck_t_2004 f_cm_t = np_sub f_cm_t (Fin 8.0)"

text \<open>
  \<^verbatim>\<open>t = minimum(t, 28.0); return exp(s*(1.0-(28.0/t)**0.5))\<close>: the names
  \<^verbatim>\<open>minimum\<close> and \<^verbatim>\<open>exp\<close> are not bound (numpy is imported as \<^verbatim>\<open>np\<close> only),
  so the first statement raises for every argument.
\<close>

definition get_betacc_t_2004 :: "real \<Rightarrow> real \<Rightarrow> exc + npfloat" where
  "get_betacc_t_2004 s t = Inl NameError"

text \<open>
  \<^verbatim>\<open>get_s\<close> is a static method whose body reads \<^verbatim>\<open>self.S_C_DICT[cement_class]\<close>:
  \<^verbatim>\<open>self\<close> is not bound, so the call raises for every argument (the table
  \<open>S_DICT\<close> is never read).
\<close>

definition get_s_2004 :: "string \<Rightarrow> exc + real" where
  "get_s_2004 cement_class = Inl NameError"

text \<open>
  \<^verbatim>\<open>get_t_T(dt, T_dt, use_linear_activation_energy=True)\<close>, called on the class with
  two one-dimensional arrays. \<^verbatim>\<open>min\<close> and \<^verbatim>\<open>max\<close> are Python's built-ins (an empty
  array raises \<open>ValueError\<close>); the correction of the activation energy reads the unbound
  name \<^verbatim>\<open>T\<close>; the product \<^verbatim>\<open>dt*np.exp(...)\<close> broadcasts (equal lengths, or one
  array of length one) and the built-in \<^verbatim>\<open>sum\<close> adds the elements up.
\<close>

definition broadcast :: "(real \<Rightarrow> real \<Rightarrow> real) \<Rightarrow> real list \<Rightarrow> real list \<Rightarrow> exc + real list" where
  "broadcast f xs ys =
     (if length xs = length ys then Inr (map2 f xs ys)
      else if length xs = 1 then Inr (map (f (hd xs)) ys)
      else if length ys = 1 then Inr (map (\<lambda>x. f x (hd ys)) xs)
      else Inl ValueError)"

definition get_t_T_2004 :: "real list \<Rightarrow> real list \<Rightarrow> bool \<Rightarrow> exc + real" where
  "get_t_T_2004 dt T_dt use_linear_activation_energy =
     (if T_dt = [] then Inl ValueError
      else if fold min (tl T_dt) (hd T_dt) \<le> 0.0 \<or> fold max (tl T_dt) (hd T_dt) > 80.0
        then Inl TemperatureException
      else
        let R = 8.314; E = 33500.0 in
        if use_linear_activation_energy then Inl NameError
        else and_then
          (broadcast (\<lambda>d T. d * exp (E / R * (1.0 / 293.0 - 1.0 / (273.0 + T)))) dt T_dt)
          (\<lambda>terms. Inr (sum_list terms)))"

definition f_ck_2004 :: "Concrete2004 \<Rightarrow> exc + real" where
  "f_ck_2004 self = subscript F_CK_DICT_2004 (strength_class_2004 self)"

definition f_cm_2004 :: "Concrete2004 \<Rightarrow> exc + real" where
  "f_cm_2004 self = and_then (f_ck_2004 self) (\<lambda>f_ck. Inr (get_fcm_2004 f_ck))"

text \<open>\<^verbatim>\<open>return self.get_Ecm(self.f_ck)\<close>: the argument is \<open>f_ck\<close>.\<close>

definition E_cm_2004 :: "Concrete2004 \<Rightarrow> exc + real" where
  "E_cm_2004 self = and_then (f_ck_2004 self) (\<lambda>f_ck. Inr (get_Ecm_2004 f_ck))"

definition s_2004 :: "Concrete2004 \<Rightarrow> exc + real" where
  "s_2004 self = get_s_2004 (cement_class_2004 self)"

section \<open>Concrete2023\<close>

definition F_CK_DICT_2023 :: "(string \<times> real) list" where
  "F_CK_DICT_2023 =
     [(''C12/15'', 12.0), (''C16/20'', 16.0), (''C20/25'', 20.0),
      (''C25/30'', 25.0), (''C30/37'', 30.0), (''C35/45'', 35.0),
      (''C40/50'', 40.0), (''C45/55'', 45.0), (''C50/60'', 50.0),
      (''C55/67'', 55.0), (''C60/75'', 60.0), (''C70/85'', 70.0),
      (''C80/95'', 80.0), (''C90/105'', 90.0), (''C100/115'', 100.0)]"

definition S_C_DICT_2023 :: "(string \<times> real list) list" where
  "S_C_DICT_2023 =
     [(''CS'', [0.6, 0.5, 0.4]),
      (''CN'', [0.5, 0.4, 0.3]),
      (''CR'', [0.3, 0.2, 0.1])]"

record Concrete2023 =
  strength_class :: string
  strength_development_class :: string
  t_ref :: real
  age :: real
  curing_temperature :: real

definition get_fcm_2023 :: "real \<Rightarrow> real" where
  "get_fcm_2023 f_ck = f_ck + 8.0"

text \<open>\<^verbatim>\<open>k_E*f_cm**(1/3)\<close>, the default of \<open>k_E\<close> being 9500; base \<open>\<ge> 0\<close> as above.\<close>

definition get_Ecm_2023 :: "real \<Rightarrow> real \<Rightarrow> real" where
  "get_Ecm_2023 f_cm k_E = k_E * f_cm powr (1 / 3)"

definition get_fcm_t_2023 :: "npfloat \<Rightarrow> real \<Rightarrow> npfloat" where
  "get_fcm_t_2023 beta_cc_t f_cm = np_mul beta_cc_t (Fin f_cm)"

definition get_Ecm_t_2023 :: "npfloat \<Rightarrow> real \<Rightarrow> npfloat" where
  "get_Ecm_t_2023 beta_cc_t E_cm = np_mul (np_pow beta_cc_t (1 / 3)) (Fin E_cm)"

definition get_fck_t_2023 :: "npfloat \<Rightarrow> npfloat" where
  "get_fck_t_2023 f_cm_t = np_sub f_cm_t (Fin 8.0)"

text \<open>
  \<^verbatim>\<open>t = np.minimum(t, t_ref)\<close> makes \<open>t\<close> a numpy scalar, so \<^verbatim>\<open>t_ref/t\<close> never
  raises; \<^verbatim>\<open>28.0/t_ref\<close> divides two Python floats and raises for \<open>t_ref = 0\<close>.
  There is no check of the age.
\<close>

definition get_betacc_t_2023 :: "real \<Rightarrow> real \<Rightarrow> real \<Rightarrow> exc + npfloat" where
  "get_betacc_t_2023 s_C t t_ref' =
     (let t = min t t_ref';
          a = np_mul (Fin s_C) (np_sub (Fin 1.0) (np_sqrt (np_div t_ref' t)))
      in if t_ref' = 0 then Inl ZeroDivisionError
         else Inr (np_exp (np_mul a (np_sqrt (Fin (28.0 / t_ref'))))))"

definition get_t_T_2023 :: "real \<Rightarrow> real \<Rightarrow> bool \<Rightarrow> exc + real" where
  "get_t_T_2023 t T use_linear_activation_energy =
     (if \<not> (0.0 < T \<and> T \<le> 80.0) then Inl TemperatureException
      else
        let R = 8.314;
            E = 33500.0 + (if use_linear_activation_energy then 1470 * max (20.0 - T) 0.0 else 0)
        in Inr (t * exp (E / R * (1.0 / 293.0 - 1.0 / (273.0 + T)))))"

definition get_sC_2023 :: "real \<Rightarrow> string \<Rightarrow> exc + real" where
  "get_sC_2023 f_ck sdc =
     (if f_ck \<le> 35.0 then and_then (subscript S_C_DICT_2023 sdc) (\<lambda>row. item row 0)
      else if f_ck < 60.0 then and_then (subscript S_C_DICT_2023 sdc) (\<lambda>row. item row 1)
      else and_then (subscript S_C_DICT_2023 sdc) (\<lambda>row. item row 2))"

text \<open>
  The caller \<^verbatim>\<open>CuringTimeVisualizer.plot_curves\<close> assigns a one-dimensional numpy array
  to \<^verbatim>\<open>age\<close>, and every operation on the age is numpy's, element by element. A value
  that is a float or such an array:
\<close>

datatype 'a nd = Scalar 'a | Array "'a list"

text \<open>
  \<^verbatim>\<open>get_t_T\<close>, \<^verbatim>\<open>get_betacc_t\<close>, \<^verbatim>\<open>get_fcm_t\<close>, \<^verbatim>\<open>get_Ecm_t\<close> and
  \<^verbatim>\<open>get_fck_t\<close> of \<^verbatim>\<open>Concrete2023\<close> with an age (and what is computed from it)
  of either shape; the temperature and the reference age are floats.
\<close>

definition get_t_T_2023_nd :: "real nd \<Rightarrow> real \<Rightarrow> bool \<Rightarrow> exc + real nd" where
  "get_t_T_2023_nd t T use_linear_activation_energy =
     (if \<not> (0.0 < T \<and> T \<le> 80.0) then Inl TemperatureException
      else
        let R = 8.314;
            E = 33500.0 + (if use_linear_activation_energy then 1470 * max (20.0 - T) 0.0 else 0)
        in Inr (map_nd (\<lambda>t. t * exp (E / R * (1.0 / 293.0 - 1.0 / (273.0 + T)))) t))"

definition get_betacc_t_2023_nd :: "real \<Rightarrow> real nd \<Rightarrow> real \<Rightarrow> exc + npfloat nd" where
  "get_betacc_t_2023_nd s_C t t_ref' =
     (let t = map_nd (\<lambda>t. min t t_ref') t;
          a = map_nd (\<lambda>t. np_mul (Fin s_C) (np_sub (Fin 1.0) (np_sqrt (np_div t_ref' t)))) t
      in if t_ref' = 0 then Inl ZeroDivisionError
         else Inr (map_nd (\<lambda>a. np_exp (np_mul a (np_sqrt (Fin (28.0 / t_ref'))))) a))"

definition get_fcm_t_2023_nd :: "npfloat nd \<Rightarrow> real \<Rightarrow> npfloat nd" where
  "get_fcm_t_2023_nd beta_cc_t f_cm = map_nd (\<lambda>b. np_mul b (Fin f_cm)) beta_cc_t"

definition get_Ecm_t_2023_nd :: "npfloat nd \<Rightarrow> real \<Rightarrow> npfloat nd" where
  "get_Ecm_t_2023_nd beta_cc_t E_cm =
     map_nd (\<lambda>b. np_mul (np_pow b (1 / 3)) (Fin E_cm)) beta_cc_t"

definition get_fck_t_2023_nd :: "npfloat nd \<Rightarrow> npfloat nd" where
  "get_fck_t_2023_nd f_cm_t = map_nd (\<lambda>m. np_sub m (Fin 8.0)) f_cm_t"

definition f_ck :: "Concrete2023 \<Rightarrow> exc + real" where
  "f_ck self = subscript F_CK_DICT_2023 (strength_class self)"

definition f_cm :: "Concrete2023 \<Rightarrow> exc + real" where
  "f_cm self = and_then (f_ck self) (\<lambda>x. Inr (get_fcm_2023 x))"

text \<open>\<^verbatim>\<open>return self.get_Ecm(self.f_ck)\<close>: the argument is \<open>f_ck\<close>, and \<open>k_E\<close> its default.\<close>

definition E_cm :: "Concrete2023 \<Rightarrow> exc + real" where
  "E_cm self = and_then (f_ck self) (\<lambda>x. Inr (get_Ecm_2023 x 9500.0))"

definition s_C :: "Concrete2023 \<Rightarrow> exc + real" where
  "s_C self = and_then (f_ck self) (\<lambda>x. get_sC_2023 x (strength_development_class self))"

definition t_T :: "Concrete2023 \<Rightarrow> exc + real" where
  "t_T self = get_t_T_2023 (age self) (curing_temperature self) True"

definition beta_cc_t :: "Concrete2023 \<Rightarrow> exc + npfloat" where
  "beta_cc_t self =
     and_then (s_C self) (\<lambda>s. and_then (t_T self) (\<lambda>t. get_betacc_t_2023 s t (t_ref self)))"

definition f_cm_t :: "Concrete2023 \<Rightarrow> exc + npfloat" where
  "f_cm_t self =
     and_then (beta_cc_t self) (\<lambda>b. and_then (f_cm self) (\<lambda>m. Inr (get_fcm_t_2023 b m)))"

definition E_cm_t :: "Concrete2023 \<Rightarrow> exc + npfloat" where
  "E_cm_t self =
     and_then (beta_cc_t self) (\<lambda>b. and_then (E_cm self) (\<lambda>E. Inr (get_Ecm_t_2023 b E)))"

definition f_ck_t :: "Concrete2023 \<Rightarrow> exc + npfloat" where
  "f_ck_t self = and_then (f_cm_t self) (\<lambda>m. Inr (get_fck_t_2023 m))"

section \<open>Objects: construction, assignment and property reads\<close>

text \<open>
  \<^verbatim>\<open>Concrete2023.__init__\<close> stores its five arguments and nothing else (the
  defaults of \<open>t_ref\<close>, \<open>age\<close> and \<open>curing_temperature\<close> are 28.0, 28.0 and 20.0).
  \<open>init_2023\<close> is the constructor for float arguments, as the signature annotates them.
\<close>

definition init_2023 :: "string \<Rightarrow> string \<Rightarrow> real \<Rightarrow> real \<Rightarrow> real \<Rightarrow> Concrete2023" where
  "init_2023 sc sdc tr a T =
     \<lparr>strength_class = sc, strength_development_class = sdc, t_ref = tr, age = a,
      curing_temperature = T\<rparr>"

text \<open>
  The instance as the interpreter holds it: the five attributes \<^verbatim>\<open>__init__\<close> binds,
  with the types of the configuration surface, and \<open>attr_others\<close>, every further
  attribute stored on the instance under a name the class does not define (a cache of a
  derived value would be one). \<^verbatim>\<open>__init__\<close> stores none.
\<close>

datatype pyval = Str string | Num "npfloat nd"

record obj =
  attr_strength_class :: string
  attr_strength_development_class :: string
  attr_t_ref :: real
  attr_age :: "real nd"
  attr_curing_temperature :: real
  attr_others :: "string \<rightharpoonup> pyval"

definition new_2023 :: "string \<Rightarrow> string \<Rightarrow> real \<Rightarrow> real nd \<Rightarrow> real \<Rightarrow> obj" where
  "new_2023 sc sdc tr a T =
     \<lparr>attr_strength_class = sc, attr_strength_development_class = sdc, attr_t_ref = tr,
      attr_age = a, attr_curing_temperature = T, attr_others = Map.empty\<rparr>"

text \<open>
  Code that runs on an instance takes it and returns a value or an exception together
  with the instance as it leaves it. \<open>attribute\<close> reads an attribute of \<^verbatim>\<open>self\<close>,
  \<open>outcome\<close> is the result of a static or class method (which has no instance at hand),
  \<open>bind\<close> runs one computation after another and stops at the first exception.
\<close>

type_synonym 'a action = "obj \<Rightarrow> (exc + 'a) \<times> obj"

definition ret :: "'a \<Rightarrow> 'a action" where
  "ret v = (\<lambda>self. (Inr v, self))"

definition outcome :: "exc + 'a \<Rightarrow> 'a action" where
  "outcome r = (\<lambda>self. (r, self))"

definition attribute :: "(obj \<Rightarrow> 'a) \<Rightarrow> 'a action" where
  "attribute a = (\<lambda>self. (Inr (a self), self))"

definition bind :: "'a action \<Rightarrow> ('a \<Rightarrow> 'b action) \<Rightarrow> 'b action" where
  "bind m f =
     (\<lambda>self. case m self of (Inl e, self') \<Rightarrow> (Inl e, self') | (Inr v, self') \<Rightarrow> f v self')"

text \<open>
  The bodies of the properties, in the order Python evaluates them: arguments from left
  to right, each \<^verbatim>\<open>self.x\<close> a read of an attribute or of another property.
\<close>

definition prop_f_ck :: "real action" where
  "prop_f_ck = bind (attribute attr_strength_class) (\<lambda>sc. outcome (subscript F_CK_DICT_2023 sc))"

definition prop_f_cm :: "real action" where
  "prop_f_cm = bind prop_f_ck (\<lambda>x. ret (get_fcm_2023 x))"

definition prop_E_cm :: "real action" where
  "prop_E_cm = bind prop_f_ck (\<lambda>x. ret (get_Ecm_2023 x 9500.0))"

definition prop_s_C :: "real action" where
  "prop_s_C =
     bind prop_f_ck (\<lambda>x.
     bind (attribute attr_strength_development_class) (\<lambda>sdc.
     outcome (get_sC_2023 x sdc)))"

definition prop_t_T :: "real nd action" where
  "prop_t_T =
     bind (attribute attr_age) (\<lambda>t.
     bind (attribute attr_curing_temperature) (\<lambda>T.
     outcome (get_t_T_2023_nd t T True)))"

definition prop_beta_cc_t :: "npfloat nd action" where
  "prop_beta_cc_t =
     bind prop_s_C (\<lambda>s.
     bind prop_t_T (\<lambda>t.
     bind (attribute attr_t_ref) (\<lambda>tr.
     outcome (get_betacc_t_2023_nd s t tr))))"

definition prop_f_cm_t :: "npfloat nd action" where
  "prop_f_cm_t =
     bind prop_beta_cc_t (\<lambda>b. bind prop_f_cm (\<lambda>m. ret (get_fcm_t_2023_nd b m)))"

definition prop_E_cm_t :: "npfloat nd action" where
  "prop_E_cm_t =
     bind prop_beta_cc_t (\<lambda>b. bind prop_E_cm (\<lambda>E. ret (get_Ecm_t_2023_nd b E)))"

definition prop_f_ck_t :: "npfloat nd action" where
  "prop_f_ck_t = bind prop_f_cm_t (\<lambda>m. ret (get_fck_t_2023_nd m))"

datatype property =
  P_f_ck | P_f_cm | P_E_cm | P_s_C | P_beta_cc_t | P_f_cm_t | P_E_cm_t | P_f_ck_t | P_t_T

definition as_float :: "real action \<Rightarrow> npfloat nd action" where
  "as_float m = bind m (\<lambda>x. ret (Scalar (Fin x)))"

fun read :: "property \<Rightarrow> npfloat nd action" where
  "read P_f_ck = as_float prop_f_ck"
| "read P_f_cm = as_float prop_f_cm"
| "read P_E_cm = as_float prop_E_cm"
| "read P_s_C = as_float prop_s_C"
| "read P_beta_cc_t = prop_beta_cc_t"
| "read P_f_cm_t = prop_f_cm_t"
| "read P_E_cm_t = prop_E_cm_t"
| "read P_f_ck_t = prop_f_ck_t"
| "read P_t_T = bind prop_t_T (\<lambda>t. ret (map_nd Fin t))"

text \<open>
  A history of an instance is a sequence of assignments to its input attributes and of
  property reads; \<open>inputs\<close> are the input attributes the instance holds, and
  \<open>derived\<close> is the value of a property as the functions of the section above compute
  it from five scalar inputs.
\<close>

datatype assignment =
  Set_strength_class string
| Set_strength_development_class string
| Set_t_ref real
| Set_age "real nd"
| Set_curing_temperature real

fun assign :: "obj \<Rightarrow> assignment \<Rightarrow> obj" where
  "assign self (Set_strength_class v) = self\<lparr>attr_strength_class := v\<rparr>"
| "assign self (Set_strength_development_class v) =
     self\<lparr>attr_strength_development_class := v\<rparr>"
| "assign self (Set_t_ref v) = self\<lparr>attr_t_ref := v\<rparr>"
| "assign self (Set_age v) = self\<lparr>attr_age := v\<rparr>"
| "assign self (Set_curing_temperature v) = self\<lparr>attr_curing_temperature := v\<rparr>"

datatype event = Assign assignment | Read property

fun step :: "obj \<Rightarrow> event \<Rightarrow> obj" where
  "step self (Assign a) = assign self a"
| "step self (Read p) = snd (read p self)"

fun assignments :: "event list \<Rightarrow> assignment list" where
  "assignments [] = []"
| "assignments (Assign a # h) = a # assignments h"
| "assignments (Read p # h) = assignments h"

definition inputs :: "obj \<Rightarrow> string \<times> string \<times> real \<times> real nd \<times> real" where
  "inputs self =
     (attr_strength_class self, attr_strength_development_class self, attr_t_ref self,
      attr_age self, attr_curing_temperature self)"

fun derived :: "property \<Rightarrow> Concrete2023 \<Rightarrow> exc + npfloat" where
  "derived P_f_ck c = and_then (f_ck c) (\<lambda>x. Inr (Fin x))"
| "derived P_f_cm c = and_then (f_cm c) (\<lambda>x. Inr (Fin x))"
| "derived P_E_cm c = and_then (E_cm c) (\<lambda>x. Inr (Fin x))"
| "derived P_s_C c = and_then (s_C c) (\<lambda>x. Inr (Fin x))"
| "derived P_beta_cc_t c = beta_cc_t c"
| "derived P_f_cm_t c = f_cm_t c"
| "derived P_E_cm_t c = E_cm_t c"
| "derived P_f_ck_t c = f_ck_t c"
| "derived P_t_T c = and_then (t_T c) (\<lambda>x. Inr (Fin x))"

text \<open>
  A computation that only reads the inputs: it returns the instance it was given, and
  its value is the same on two instances that hold the same inputs.
\<close>

definition reads_inputs :: "'a action \<Rightarrow> bool" where
  "reads_inputs m =
     ((\<forall>self. snd (m self) = self) \<and>
      (\<forall>a b. inputs a = inputs b \<longrightarrow> fst (m a) = fst (m b)))"

section \<open>The 2004 aging coefficient as the standard states it\<close>

text \<open>
  The 2004 form of the aging coefficient in the words of the specification,
  \<open>beta_cc(s, t) = exp(s * (1 - sqrt(28/t')))\<close> with \<open>t' = min(t, 28)\<close>; it is
  compared below with the 2023 function of the source.
\<close>

definition beta_cc_2004_spec :: "real \<Rightarrow> real \<Rightarrow> real" where
  "beta_cc_2004_spec s t = exp (s * (1 - sqrt (28 / min t 28)))"

section \<open>Auxiliary facts\<close>

lemma subscript_in_table:
  "k \<in> fst ` set d \<Longrightarrow> \<exists>v. subscript d k = Inr v"
  unfolding subscript_def
  by (cases "map_of d k") (auto simp: map_of_eq_None_iff)

lemma get_sC_2023_in_table:
  "sdc \<in> fst ` set S_C_DICT_2023 \<Longrightarrow> \<not> isl (get_sC_2023 x sdc)"
  by (auto simp: get_sC_2023_def S_C_DICT_2023_def subscript_def and_then_def item_def)

lemma get_betacc_t_2023_pos:
  "0 < t \<Longrightarrow> 0 < tr \<Longrightarrow>
   get_betacc_t_2023 s t tr = Inr (Fin (exp (s * (1 - sqrt (tr / min t tr)) * sqrt (28 / tr))))"
  by (simp add: get_betacc_t_2023_def np_div_def Let_def min_def)

lemma get_t_T_2023_in_range:
  "0 < T \<Longrightarrow> T \<le> 80 \<Longrightarrow> \<exists>v. get_t_T_2023 t T b = Inr v \<and> (0 < t \<longrightarrow> 0 < v)"
  by (simp add: get_t_T_2023_def Let_def)

lemma beta_cc_t_valid:
  assumes "strength_class c \<in> fst ` set F_CK_DICT_2023"
    and "strength_development_class c \<in> fst ` set S_C_DICT_2023"
    and "0 < t_ref c" and "0 < age c"
    and "0 < curing_temperature c" and "curing_temperature c \<le> 80"
  shows "\<exists>b. beta_cc_t c = Inr (Fin b) \<and> 0 < b"
proof -
  obtain x where x: "f_ck c = Inr x"
    using subscript_in_table [OF assms(1)] by (auto simp: f_ck_def)
  obtain s where s: "get_sC_2023 x (strength_development_class c) = Inr s"
    using get_sC_2023_in_table [OF assms(2), of x]
    by (cases "get_sC_2023 x (strength_development_class c)") auto
  obtain v where v: "t_T c = Inr v" and vpos: "0 < v"
    using get_t_T_2023_in_range [OF assms(5,6), of "age c" True] assms(4)
    by (auto simp: t_T_def)
  show ?thesis
    using get_betacc_t_2023_pos [OF vpos assms(3), of s]
    by (simp add: beta_cc_t_def s_C_def x s v and_then_def)
qed

lemma cube_root_less: "0 \<le> x \<Longrightarrow> 0 < y \<Longrightarrow> x < y ^ 3 \<Longrightarrow> x powr (1 / 3) < (y::real)"
proof -
  assume a: "0 \<le> x" "0 < y" "x < y ^ 3"
  have "x powr (1 / 3) < (y ^ 3) powr (1 / 3)"
    using a by (intro powr_less_mono2) auto
  also have "(y ^ 3) powr (1 / 3) = y"
    using a(2) by (simp add: powr_powr flip: powr_numeral)
  finally show ?thesis .
qed

lemma get_betacc_t_2023_at_t_ref:
  "0 < tr \<Longrightarrow> get_betacc_t_2023 s tr tr = Inr (Fin 1)"
  by (simp add: get_betacc_t_2023_pos)

lemma round_trip_2023:
  "0 < tr \<Longrightarrow>
   and_then (get_betacc_t_2023 s tr tr)
     (\<lambda>b. Inr (get_fck_t_2023 (get_fcm_t_2023 b (get_fcm_2023 x)))) = Inr (Fin x)"
  by (simp add: get_betacc_t_2023_at_t_ref and_then_def get_fck_t_2023_def
      get_fcm_t_2023_def get_fcm_2023_def)

lemma get_betacc_t_2023_generalises_spec:
  "0 < t \<Longrightarrow> get_betacc_t_2023 s t 28 = Inr (Fin (beta_cc_2004_spec s t))"
  by (simp add: get_betacc_t_2023_pos beta_cc_2004_spec_def)

lemma fold_min_max_range:
  assumes "T_dt \<noteq> []"
  shows "(fold min (tl T_dt) (hd T_dt) \<le> (0::real) \<or> fold max (tl T_dt) (hd T_dt) > 80) =
         (\<exists>T \<in> set T_dt. T \<le> 0 \<or> 80 < T)"
proof -
  have s: "set T_dt = set (hd T_dt # tl T_dt)" using assms by simp
  have "fold min (tl T_dt) (hd T_dt) = Min (set T_dt)"
    unfolding s by (rule Min.set_eq_fold [symmetric])
  moreover have "fold max (tl T_dt) (hd T_dt) = Max (set T_dt)"
    unfolding s by (rule Max.set_eq_fold [symmetric])
  moreover have "(Min (set T_dt) \<le> 0) = (\<exists>T \<in> set T_dt. T \<le> 0)"
    using assms by (simp add: Min_le_iff)
  moreover have "(Max (set T_dt) > 80) = (\<exists>T \<in> set T_dt. 80 < T)"
    using assms by (simp add: Max_gr_iff)
  ultimately show ?thesis by auto
qed

lemma get_t_T_2004_constant_energy:
  assumes "T_dt \<noteq> []" and "length dt = length T_dt"
    and "\<forall>T \<in> set T_dt. 0 < T \<and> T \<le> 80"
  shows "get_t_T_2004 dt T_dt False =
         Inr (\<Sum>(d, T) \<leftarrow> zip dt T_dt. d * exp (33500 / 8.314 * (1 / 293 - 1 / (273 + T))))"
proof -
  have "\<not> (fold min (tl T_dt) (hd T_dt) \<le> 0 \<or> fold max (tl T_dt) (hd T_dt) > 80)"
    unfolding fold_min_max_range [OF assms(1)] using assms(3) by (auto simp: not_le not_less)
  then show ?thesis
    using assms(1,2)
    by (simp add: get_t_T_2004_def Let_def broadcast_def and_then_def)
qed

lemma get_t_T_2004_default:
  assumes "T_dt \<noteq> []" and "\<forall>T \<in> set T_dt. 0 < T \<and> T \<le> 80"
  shows "get_t_T_2004 dt T_dt True = Inl NameError"
proof -
  have "\<not> (fold min (tl T_dt) (hd T_dt) \<le> 0 \<or> fold max (tl T_dt) (hd T_dt) > 80)"
    unfolding fold_min_max_range [OF assms(1)] using assms(2) by (auto simp: not_le not_less)
  then show ?thesis
    using assms(1) by (simp add: get_t_T_2004_def Let_def)
qed

lemma reads_inputsI:
  "(\<And>self. snd (m self) = self) \<Longrightarrow>
   (\<And>a b. inputs a = inputs b \<Longrightarrow> fst (m a) = fst (m b)) \<Longrightarrow> reads_inputs m"
  unfolding reads_inputs_def by blast

lemma reads_inputs_frame: "reads_inputs m \<Longrightarrow> snd (m self) = self"
  unfolding reads_inputs_def by blast

lemma reads_inputs_value: "reads_inputs m \<Longrightarrow> inputs a = inputs b \<Longrightarrow> fst (m a) = fst (m b)"
  unfolding reads_inputs_def by blast

lemma bind_eq:
  "bind m f self =
     (case fst (m self) of Inl e \<Rightarrow> (Inl e, snd (m self)) | Inr v \<Rightarrow> f v (snd (m self)))"
  by (cases "m self") (simp add: bind_def split: sum.split)

lemma reads_inputs_bind:
  assumes m: "reads_inputs m" and f: "\<And>v. reads_inputs (f v)"
  shows "reads_inputs (bind m f)"
proof (rule reads_inputsI)
  fix self
  show "snd (bind m f self) = self"
  proof (cases "fst (m self)")
    case (Inl e)
    then show ?thesis by (simp add: bind_eq reads_inputs_frame [OF m])
  next
    case (Inr v)
    then show ?thesis
      by (simp add: bind_eq reads_inputs_frame [OF m] reads_inputs_frame [OF f])
  qed
next
  fix a b
  assume eq: "inputs a = inputs b"
  have fm: "fst (m a) = fst (m b)" using m eq by (rule reads_inputs_value)
  show "fst (bind m f a) = fst (bind m f b)"
  proof (cases "fst (m b)")
    case (Inl e)
    then show ?thesis by (simp add: bind_eq fm)
  next
    case (Inr v)
    have "fst (f v a) = fst (f v b)" using f eq by (rule reads_inputs_value)
    then show ?thesis
      by (simp add: bind_eq fm Inr reads_inputs_frame [OF m])
  qed
qed


lemma reads_inputs_ret: "reads_inputs (ret v)"
  by (rule reads_inputsI) (simp_all add: ret_def)

lemma reads_inputs_outcome: "reads_inputs (outcome r)"
  by (rule reads_inputsI) (simp_all add: outcome_def)

lemma reads_inputs_attribute:
  "reads_inputs (attribute attr_strength_class)"
  "reads_inputs (attribute attr_strength_development_class)"
  "reads_inputs (attribute attr_t_ref)"
  "reads_inputs (attribute attr_age)"
  "reads_inputs (attribute attr_curing_temperature)"
  by (rule reads_inputsI; simp add: attribute_def inputs_def)+

lemma reads_inputs_prop_f_ck: "reads_inputs prop_f_ck"
  unfolding prop_f_ck_def
  by (rule reads_inputs_bind reads_inputs_attribute reads_inputs_outcome)+

lemma reads_inputs_prop_f_cm: "reads_inputs prop_f_cm"
  unfolding prop_f_cm_def
  by (rule reads_inputs_bind reads_inputs_prop_f_ck reads_inputs_ret)+

lemma reads_inputs_prop_E_cm: "reads_inputs prop_E_cm"
  unfolding prop_E_cm_def
  by (rule reads_inputs_bind reads_inputs_prop_f_ck reads_inputs_ret)+

lemma reads_inputs_prop_s_C: "reads_inputs prop_s_C"
  unfolding prop_s_C_def
  by (rule reads_inputs_bind reads_inputs_prop_f_ck reads_inputs_attribute
      reads_inputs_outcome)+

lemma reads_inputs_prop_t_T: "reads_inputs prop_t_T"
  unfolding prop_t_T_def
  by (rule reads_inputs_bind reads_inputs_attribute reads_inputs_outcome)+

lemma reads_inputs_prop_beta_cc_t: "reads_inputs prop_beta_cc_t"
  unfolding prop_beta_cc_t_def
  by (rule reads_inputs_bind reads_inputs_prop_s_C reads_inputs_prop_t_T
      reads_inputs_attribute reads_inputs_outcome)+

lemma reads_inputs_prop_f_cm_t: "reads_inputs prop_f_cm_t"
  unfolding prop_f_cm_t_def
  by (rule reads_inputs_bind reads_inputs_prop_beta_cc_t reads_inputs_prop_f_cm
      reads_inputs_ret)+

lemma reads_inputs_prop_E_cm_t: "reads_inputs prop_E_cm_t"
  unfolding prop_E_cm_t_def
  by (rule reads_inputs_bind reads_inputs_prop_beta_cc_t reads_inputs_prop_E_cm
      reads_inputs_ret)+

lemma reads_inputs_prop_f_ck_t: "reads_inputs prop_f_ck_t"
  unfolding prop_f_ck_t_def
  by (rule reads_inputs_bind reads_inputs_prop_f_cm_t reads_inputs_ret)+

lemma reads_inputs_as_float: "reads_inputs m \<Longrightarrow> reads_inputs (as_float m)"
  unfolding as_float_def by (rule reads_inputs_bind, assumption, rule reads_inputs_ret)

lemma reads_inputs_read: "reads_inputs (read p)"
proof (cases p)
  case P_f_ck
  then show ?thesis by (simp add: reads_inputs_as_float reads_inputs_prop_f_ck)
next
  case P_f_cm
  then show ?thesis by (simp add: reads_inputs_as_float reads_inputs_prop_f_cm)
next
  case P_E_cm
  then show ?thesis by (simp add: reads_inputs_as_float reads_inputs_prop_E_cm)
next
  case P_s_C
  then show ?thesis by (simp add: reads_inputs_as_float reads_inputs_prop_s_C)
next
  case P_beta_cc_t
  then show ?thesis by (simp add: reads_inputs_prop_beta_cc_t)
next
  case P_f_cm_t
  then show ?thesis by (simp add: reads_inputs_prop_f_cm_t)
next
  case P_E_cm_t
  then show ?thesis by (simp add: reads_inputs_prop_E_cm_t)
next
  case P_f_ck_t
  then show ?thesis by (simp add: reads_inputs_prop_f_ck_t)
next
  case P_t_T
  have "reads_inputs (bind prop_t_T (\<lambda>t. ret (map_nd Fin t)))"
    by (rule reads_inputs_bind reads_inputs_prop_t_T reads_inputs_ret)+
  then show ?thesis using P_t_T by simp
qed

lemma foldl_step_assignments: "foldl step self h = foldl assign self (assignments h)"
proof (induction h arbitrary: self rule: assignments.induct)
  case 1
  show ?case by simp
next
  case (2 a h)
  then show ?case by simp
next
  case (3 p h)
  have "snd (read p self) = self" by (rule reads_inputs_frame [OF reads_inputs_read])
  then show ?case using 3 by simp
qed


lemma bind_value:
  "reads_inputs m \<Longrightarrow> fst (bind m f self) = and_then (fst (m self)) (\<lambda>v. fst (f v self))"
  by (simp add: bind_eq reads_inputs_frame and_then_def split: sum.split)

lemma get_t_T_2023_nd_Scalar:
  "get_t_T_2023_nd (Scalar t) T lin = and_then (get_t_T_2023 t T lin) (\<lambda>v. Inr (Scalar v))"
  by (simp add: get_t_T_2023_nd_def get_t_T_2023_def and_then_def Let_def)

lemma get_betacc_t_2023_nd_Scalar:
  "get_betacc_t_2023_nd s (Scalar t) tr =
     and_then (get_betacc_t_2023 s t tr) (\<lambda>v. Inr (Scalar v))"
  by (simp add: get_betacc_t_2023_nd_def get_betacc_t_2023_def and_then_def Let_def)

lemma bind_attribute: "bind (attribute a) f self = f (a self) self"
  by (simp add: bind_def attribute_def)

lemma prop_f_ck_value:
  "fst (prop_f_ck self) = subscript F_CK_DICT_2023 (attr_strength_class self)"
  by (simp add: prop_f_ck_def bind_attribute outcome_def)

lemma prop_f_cm_value:
  "fst (prop_f_cm self) =
     and_then (fst (prop_f_ck self)) (\<lambda>x. Inr (get_fcm_2023 x))"
  by (simp add: prop_f_cm_def bind_value reads_inputs_prop_f_ck ret_def)

lemma prop_E_cm_value:
  "fst (prop_E_cm self) =
     and_then (fst (prop_f_ck self)) (\<lambda>x. Inr (get_Ecm_2023 x 9500))"
  by (simp add: prop_E_cm_def bind_value reads_inputs_prop_f_ck ret_def)

lemma prop_s_C_value:
  "fst (prop_s_C self) =
     and_then (fst (prop_f_ck self))
       (\<lambda>x. get_sC_2023 x (attr_strength_development_class self))"
  by (simp add: prop_s_C_def bind_value reads_inputs_prop_f_ck bind_attribute outcome_def)

lemma prop_t_T_value:
  "fst (prop_t_T self) = get_t_T_2023_nd (attr_age self) (attr_curing_temperature self) True"
  by (simp add: prop_t_T_def bind_attribute outcome_def)

lemma prop_beta_cc_t_value:
  "fst (prop_beta_cc_t self) =
     and_then (fst (prop_s_C self)) (\<lambda>s.
     and_then (fst (prop_t_T self)) (\<lambda>t. get_betacc_t_2023_nd s t (attr_t_ref self)))"
  by (simp add: prop_beta_cc_t_def bind_value reads_inputs_prop_s_C reads_inputs_prop_t_T
      bind_attribute outcome_def)

lemma prop_f_cm_t_value:
  "fst (prop_f_cm_t self) =
     and_then (fst (prop_beta_cc_t self)) (\<lambda>b.
     and_then (fst (prop_f_cm self)) (\<lambda>m. Inr (get_fcm_t_2023_nd b m)))"
  by (simp add: prop_f_cm_t_def bind_value reads_inputs_prop_beta_cc_t reads_inputs_prop_f_cm
      ret_def)

lemma prop_E_cm_t_value:
  "fst (prop_E_cm_t self) =
     and_then (fst (prop_beta_cc_t self)) (\<lambda>b.
     and_then (fst (prop_E_cm self)) (\<lambda>E. Inr (get_Ecm_t_2023_nd b E)))"
  by (simp add: prop_E_cm_t_def bind_value reads_inputs_prop_beta_cc_t reads_inputs_prop_E_cm
      ret_def)

lemma prop_f_ck_t_value:
  "fst (prop_f_ck_t self) =
     and_then (fst (prop_f_cm_t self)) (\<lambda>m. Inr (get_fck_t_2023_nd m))"
  by (simp add: prop_f_ck_t_def bind_value reads_inputs_prop_f_cm_t ret_def)


lemma read_scalar_age:
  assumes "attr_age self = Scalar t"
  shows "fst (read p self) =
         and_then
           (derived p
             (init_2023 (attr_strength_class self) (attr_strength_development_class self)
                (attr_t_ref self) t (attr_curing_temperature self)))
           (\<lambda>v. Inr (Scalar v))"
proof -
  let ?c = "init_2023 (attr_strength_class self) (attr_strength_development_class self)
              (attr_t_ref self) t (attr_curing_temperature self)"
  have k: "fst (prop_f_ck self) = f_ck ?c"
    by (simp add: prop_f_ck_value f_ck_def init_2023_def)
  have m: "fst (prop_f_cm self) = f_cm ?c"
    by (simp add: prop_f_cm_value k f_cm_def)
  have E: "fst (prop_E_cm self) = E_cm ?c"
    by (simp add: prop_E_cm_value k E_cm_def)
  have s: "fst (prop_s_C self) = s_C ?c"
    by (simp add: prop_s_C_value k s_C_def) (simp add: init_2023_def)
  have t: "fst (prop_t_T self) = and_then (t_T ?c) (\<lambda>v. Inr (Scalar v))"
    by (simp add: prop_t_T_value assms get_t_T_2023_nd_Scalar t_T_def init_2023_def)
  have b: "fst (prop_beta_cc_t self) = and_then (beta_cc_t ?c) (\<lambda>v. Inr (Scalar v))"
    unfolding prop_beta_cc_t_value s t beta_cc_t_def
    by (simp add: and_then_def get_betacc_t_2023_nd_Scalar init_2023_def split: sum.split)
  have fm: "fst (prop_f_cm_t self) = and_then (f_cm_t ?c) (\<lambda>v. Inr (Scalar v))"
    unfolding prop_f_cm_t_value b m f_cm_t_def
    by (simp add: and_then_def get_fcm_t_2023_nd_def get_fcm_t_2023_def split: sum.split)
  have Em: "fst (prop_E_cm_t self) = and_then (E_cm_t ?c) (\<lambda>v. Inr (Scalar v))"
    unfolding prop_E_cm_t_value b E E_cm_t_def
    by (simp add: and_then_def get_Ecm_t_2023_nd_def get_Ecm_t_2023_def split: sum.split)
  have fk: "fst (prop_f_ck_t self) = and_then (f_ck_t ?c) (\<lambda>v. Inr (Scalar v))"
    unfolding prop_f_ck_t_value fm f_ck_t_def
    by (simp add: and_then_def get_fck_t_2023_nd_def get_fck_t_2023_def split: sum.split)
  show ?thesis
  proof (cases p)
    case P_f_ck
    then show ?thesis
      by (simp add: as_float_def bind_value reads_inputs_prop_f_ck ret_def k and_then_def
          split: sum.split)
  next
    case P_f_cm
    then show ?thesis
      by (simp add: as_float_def bind_value reads_inputs_prop_f_cm ret_def m and_then_def
          split: sum.split)
  next
    case P_E_cm
    then show ?thesis
      by (simp add: as_float_def bind_value reads_inputs_prop_E_cm ret_def E and_then_def
          split: sum.split)
  next
    case P_s_C
    then show ?thesis
      by (simp add: as_float_def bind_value reads_inputs_prop_s_C ret_def s and_then_def
          split: sum.split)
  next
    case P_beta_cc_t
    then show ?thesis by (simp add: b)
  next
    case P_f_cm_t
    then show ?thesis by (simp add: fm)
  next
    case P_E_cm_t
    then show ?thesis by (simp add: Em)
  next
    case P_f_ck_t
    then show ?thesis by (simp add: fk)
  next
    case P_t_T
    then show ?thesis
      by (simp add: bind_value reads_inputs_prop_t_T ret_def t and_then_def split: sum.split)
  qed
qed

lemma read_f_ck_t_array:
  "fst (read P_f_ck_t (new_2023 ''C30/37'' ''CN'' 28 (Array [7, 28]) 20)) =
     Inr (Array [Fin (exp (- 1 / 2) * 38 - 8), Fin 30])"
  by (simp add: prop_f_ck_t_value prop_f_cm_t_value prop_beta_cc_t_value prop_s_C_value
      prop_t_T_value prop_f_cm_value prop_f_ck_value new_2023_def subscript_def and_then_def
      item_def F_CK_DICT_2023_def S_C_DICT_2023_def get_sC_2023_def get_t_T_2023_nd_def
      get_betacc_t_2023_nd_def np_div_def get_fcm_t_2023_nd_def get_fck_t_2023_nd_def
      get_fcm_2023_def Let_def)

section \<open>Modulus of elasticity at reference age\<close>

text \<open>
  C1. The modulus at reference age is claimed to be the standard's formula applied to the
  mean strength \<open>f_cm = f_ck + 8\<close>, so that a 2023 model of class C30/37 reports
  \<open>9500 * 38^(1/3)\<close>. The property \<^verbatim>\<open>E_cm\<close> passes \<open>f_ck\<close> to \<^verbatim>\<open>get_Ecm\<close>, whose
  parameter is documented as the mean strength: for C30/37 the value read is
  \<open>9500 * 30^(1/3)\<close>, below 29600 and strictly below the claimed one, while \<open>f_cm\<close> is 38.
  The 2004 property does the same: \<open>22000 * (30/10)^0.3\<close>.
\<close>

theorem E_cm_takes_f_ck:
  "E_cm (init_2023 ''C30/37'' ''CN'' 28 28 20) = Inr (9500 * 30 powr (1 / 3)) \<and>
   f_cm (init_2023 ''C30/37'' ''CN'' 28 28 20) = Inr 38 \<and>
   (9500 * 30 powr (1 / 3) :: real) < 9500 * 38 powr (1 / 3) \<and>
   (9500 * 30 powr (1 / 3) :: real) < 29600 \<and>
   E_cm_2004 \<lparr>strength_class_2004 = ''C30/37'', cement_class_2004 = ''N'',
              curing_temperature_2004 = 20\<rparr> = Inr (22000 * 3 powr 0.3) \<and>
   f_cm_2004 \<lparr>strength_class_2004 = ''C30/37'', cement_class_2004 = ''N'',
              curing_temperature_2004 = 20\<rparr> = Inr 38"
proof -
  have "(30::real) powr (1 / 3) < 3.11"
    by (rule cube_root_less) (simp_all add: power3_eq_cube)
  then have "(9500 * 30 powr (1 / 3) :: real) < 29600" by simp
  moreover have "(30::real) powr (1 / 3) < 38 powr (1 / 3)"
    by (simp add: powr_less_mono2)
  ultimately show ?thesis
    by (simp add: E_cm_def f_cm_def f_ck_def init_2023_def subscript_def and_then_def
        F_CK_DICT_2023_def get_Ecm_2023_def get_fcm_2023_def
        E_cm_2004_def f_cm_2004_def f_ck_2004_def F_CK_DICT_2004_def get_Ecm_2004_def
        get_fcm_2004_def)
qed

section \<open>The aging coefficient at the reference age\<close>

text \<open>
  C3. At an age equal to the reference age the aging coefficient is claimed to be exactly 1
  for both variants. The 2023 function returns 1 there (and the round trip through
  \<open>get_fcm_t\<close> and \<open>get_fck_t\<close> returns \<open>f_ck\<close>, see \<open>round_trip_2023\<close>); the 2004
  function raises \<open>NameError\<close> at \<open>s = 0.25\<close>, \<open>t = 28\<close>, as at every argument.
\<close>

theorem betacc_t_at_reference_age:
  "get_betacc_t_2004 0.25 28 = Inl NameError \<and> get_betacc_t_2023 0.25 28 28 = Inr (Fin 1)"
  by (simp add: get_betacc_t_2004_def get_betacc_t_2023_pos)

section \<open>The temperature check of the equivalent age\<close>

text \<open>
  C4. The constant-temperature equivalent age of the 2023 variant raises its temperature
  exception exactly when the temperature is outside \<open>(0, 80]\<close>, and raises nothing else;
  inside the interval it returns a (finite) value. The check is the first statement of the
  function.
\<close>

theorem get_t_T_2023_temperature_check:
  "(get_t_T_2023 t T lin = Inl TemperatureException) = (T \<le> 0 \<or> 80 < T) \<and>
   (\<exists>v. get_t_T_2023 t T lin = Inr v) = (0 < T \<and> T \<le> 80) \<and>
   (\<forall>e. get_t_T_2023 t T lin = Inl e \<longrightarrow> e = TemperatureException)"
  by (auto simp: get_t_T_2023_def Let_def)

theorem get_t_T_2023_temperature_check_witness:
  "get_t_T_2023 1 0 True = Inl TemperatureException \<and>
   get_t_T_2023 1 80.001 True = Inl TemperatureException \<and>
   (\<exists>v. get_t_T_2023 1 0.001 True = Inr v) \<and>
   (\<exists>v. get_t_T_2023 1 80 True = Inr v)"
  using get_t_T_2023_temperature_check [of 1 0 True]
    get_t_T_2023_temperature_check [of 1 "80.001" True]
    get_t_T_2023_temperature_check [of 1 "0.001" True]
    get_t_T_2023_temperature_check [of 1 80 True]
  by simp

section \<open>The aging coefficient at non-positive ages\<close>

text \<open>
  C5, as stated: a non-positive age makes the aging coefficient fail with an age error
  instead of yielding a non-finite value. The 2023 function returns NaN at age \<open>-1\<close>.
\<close>

theorem get_betacc_t_2023_negative_age:
  "get_betacc_t_2023 0.5 (- 1) 28 = Inr NaN"
  by (simp add: get_betacc_t_2023_def np_div_def Let_def)

text \<open>
  C5, amended: the 2023 aging coefficient checks no age and raises no age error. For a
  positive reference age it returns the finite value
  \<open>exp (s_C * (1 - sqrt (t_ref / min t t_ref)) * sqrt (28 / t_ref))\<close> at every positive
  age, NaN at every negative age, and at age zero the limit of the formula (0 for a
  positive coefficient).
\<close>

theorem get_betacc_t_2023_no_age_check:
  assumes "0 < tr"
  shows "(0 < t \<longrightarrow>
            get_betacc_t_2023 s t tr =
              Inr (Fin (exp (s * (1 - sqrt (tr / min t tr)) * sqrt (28 / tr))))) \<and>
         (t = 0 \<longrightarrow>
            get_betacc_t_2023 s t tr =
              Inr (if 0 < s then Fin 0 else if s < 0 then PInf else NaN)) \<and>
         (t < 0 \<longrightarrow> get_betacc_t_2023 s t tr = Inr NaN)"
proof (intro conjI impI)
  assume "0 < t"
  then show "get_betacc_t_2023 s t tr =
      Inr (Fin (exp (s * (1 - sqrt (tr / min t tr)) * sqrt (28 / tr))))"
    using assms by (rule get_betacc_t_2023_pos)
next
  assume "t = 0"
  then show "get_betacc_t_2023 s t tr =
      Inr (if 0 < s then Fin 0 else if s < 0 then PInf else NaN)"
    using assms by (simp add: get_betacc_t_2023_def np_div_def Let_def)
next
  assume "t < 0"
  then have "tr / t < 0" using assms by (simp add: divide_pos_neg)
  then show "get_betacc_t_2023 s t tr = Inr NaN"
    using assms \<open>t < 0\<close> by (simp add: get_betacc_t_2023_def np_div_def Let_def min_def)
qed

theorem get_betacc_t_2023_no_age_check_witness:
  "get_betacc_t_2023 0.5 7 28 = Inr (Fin (exp (- 1 / 2))) \<and>
   get_betacc_t_2023 0.5 0 28 = Inr (Fin 0) \<and>
   get_betacc_t_2023 0.5 (- 7) 28 = Inr NaN"
  using get_betacc_t_2023_no_age_check [where tr = 28 and t = 7 and s = "0.5"]
    get_betacc_t_2023_no_age_check [where tr = 28 and t = 0 and s = "0.5"]
    get_betacc_t_2023_no_age_check [where tr = 28 and t = "- 7" and s = "0.5"]
  by simp

section \<open>Characteristic and mean strength at an age\<close>

text \<open>
  C2. The age-adjusted characteristic strength is the age-adjusted mean strength minus
  8 MPa, in both variants: the 2023 property \<open>f_ck_t\<close> is \<open>f_cm_t\<close> minus 8 (an
  exception of \<open>f_cm_t\<close> is the exception of \<open>f_ck_t\<close>); for a configuration with
  classes of the tables, a positive reference age, a positive age and a temperature in
  \<open>(0, 80]\<close>, both are finite and differ by 8; and \<open>get_fck_t\<close> of either variant,
  applied to \<open>get_fcm_t\<close>, subtracts 8.
\<close>

theorem f_ck_t_is_f_cm_t_minus_8:
  "f_ck_t c = and_then (f_cm_t c) (\<lambda>m. Inr (np_sub m (Fin 8))) \<and>
   (strength_class c \<in> fst ` set F_CK_DICT_2023 \<and>
    strength_development_class c \<in> fst ` set S_C_DICT_2023 \<and>
    0 < t_ref c \<and> 0 < age c \<and> 0 < curing_temperature c \<and> curing_temperature c \<le> 80
    \<longrightarrow> (\<exists>x. f_cm_t c = Inr (Fin x) \<and> f_ck_t c = Inr (Fin (x - 8)))) \<and>
   get_fck_t_2004 (get_fcm_t_2004 (Fin b) m) = Fin (b * m - 8) \<and>
   get_fck_t_2023 (get_fcm_t_2023 (Fin b) m) = Fin (b * m - 8)"
proof (intro conjI impI)
  show "f_ck_t c = and_then (f_cm_t c) (\<lambda>m. Inr (np_sub m (Fin 8)))"
    by (simp add: f_ck_t_def get_fck_t_2023_def)
next
  assume v: "strength_class c \<in> fst ` set F_CK_DICT_2023 \<and>
    strength_development_class c \<in> fst ` set S_C_DICT_2023 \<and>
    0 < t_ref c \<and> 0 < age c \<and> 0 < curing_temperature c \<and> curing_temperature c \<le> 80"
  then obtain b where b: "beta_cc_t c = Inr (Fin b)"
    using beta_cc_t_valid [of c] by blast
  obtain x where x: "f_ck c = Inr x"
    using v subscript_in_table [of "strength_class c" F_CK_DICT_2023] by (auto simp: f_ck_def)
  have "f_cm_t c = Inr (Fin (b * (x + 8)))"
    by (simp add: f_cm_t_def f_cm_def b x and_then_def get_fcm_t_2023_def get_fcm_2023_def)
  moreover from this have "f_ck_t c = Inr (Fin (b * (x + 8) - 8))"
    by (simp add: f_ck_t_def and_then_def get_fck_t_2023_def)
  ultimately show "\<exists>x. f_cm_t c = Inr (Fin x) \<and> f_ck_t c = Inr (Fin (x - 8))"
    by blast
next
  show "get_fck_t_2004 (get_fcm_t_2004 (Fin b) m) = Fin (b * m - 8)"
    by (simp add: get_fck_t_2004_def get_fcm_t_2004_def)
next
  show "get_fck_t_2023 (get_fcm_t_2023 (Fin b) m) = Fin (b * m - 8)"
    by (simp add: get_fck_t_2023_def get_fcm_t_2023_def)
qed

theorem f_ck_t_is_f_cm_t_minus_8_witness:
  "\<exists>x. f_cm_t (init_2023 ''C30/37'' ''CN'' 28 7 20) = Inr (Fin x) \<and>
       f_ck_t (init_2023 ''C30/37'' ''CN'' 28 7 20) = Inr (Fin (x - 8))"
proof -
  have "strength_class (init_2023 ''C30/37'' ''CN'' 28 7 20) \<in> fst ` set F_CK_DICT_2023"
    by (simp add: init_2023_def F_CK_DICT_2023_def)
  moreover have
    "strength_development_class (init_2023 ''C30/37'' ''CN'' 28 7 20) \<in> fst ` set S_C_DICT_2023"
    by (simp add: init_2023_def S_C_DICT_2023_def)
  moreover have "0 < t_ref (init_2023 ''C30/37'' ''CN'' 28 7 20)"
    "0 < age (init_2023 ''C30/37'' ''CN'' 28 7 20)"
    "0 < curing_temperature (init_2023 ''C30/37'' ''CN'' 28 7 20)"
    "curing_temperature (init_2023 ''C30/37'' ''CN'' 28 7 20) \<le> 80"
    by (simp_all add: init_2023_def)
  ultimately show ?thesis
    using f_ck_t_is_f_cm_t_minus_8 [of "init_2023 ''C30/37'' ''CN'' 28 7 20"] by blast
qed

section \<open>The variable-temperature equivalent age of the 2004 variant\<close>

text \<open>
  C6. With the linear correction of the activation energy enabled (the default), the 2004
  equivalent age is claimed to be the sum of \<open>duration * exp (E/R * (1/293 - 1/(273 + T)))\<close>
  with \<open>E\<close> computed from each interval's temperature. The code reads the unbound name
  \<^verbatim>\<open>T\<close> there: one day at 10 degrees raises \<open>NameError\<close>. With the correction
  disabled the same input gives the sum with \<open>E = 33500\<close>
  (\<open>get_t_T_2004_constant_energy\<close> for every input).
\<close>

theorem get_t_T_2004_default_raises:
  "get_t_T_2004 [1] [10] True = Inl NameError \<and>
   get_t_T_2004 [1] [10] False = Inr (exp (33500 / 8.314 * (1 / 293 - 1 / 283)))"
  by (simp add: get_t_T_2004_def Let_def broadcast_def and_then_def)

section \<open>Cement class N at seven days (2004)\<close>

text \<open>
  C7. Cement class N is claimed to give \<open>s = 0.25\<close> and, at 7 days, the aging
  coefficient \<open>exp (-0.25)\<close>. The table \<open>S_DICT\<close> holds 0.25 for N, but \<^verbatim>\<open>get_s\<close>
  (and the property \<open>s\<close>) raises \<open>NameError\<close>, and so does \<^verbatim>\<open>get_betacc_t\<close> at
  \<open>s = 0.25\<close>, \<open>t = 7\<close>.
\<close>

theorem cement_class_N_at_7_days:
  "get_s_2004 ''N'' = Inl NameError \<and>
   s_2004 \<lparr>strength_class_2004 = ''C30/37'', cement_class_2004 = ''N'',
           curing_temperature_2004 = 20\<rparr> = Inl NameError \<and>
   subscript S_DICT_2004 ''N'' = Inr 0.25 \<and>
   get_betacc_t_2004 0.25 7 = Inl NameError"
  by (simp add: get_s_2004_def s_2004_def get_betacc_t_2004_def subscript_def S_DICT_2004_def)

section \<open>The 2023 aging coefficient at a reference age of 28 days\<close>

text \<open>
  C8. At \<open>t_ref = 28\<close> the 2023 aging coefficient is claimed to equal the 2004 one at the
  same \<open>s\<close> and \<open>t\<close>. At \<open>s = 0.25\<close>, \<open>t = 7\<close> the 2023 function returns
  \<open>exp (-1/4)\<close>, the value of the 2004 formula, and the 2004 function raises
  \<open>NameError\<close>: the results differ.
\<close>

theorem betacc_t_2023_versus_2004:
  "get_betacc_t_2023 0.25 7 28 = Inr (Fin (exp (- 1 / 4))) \<and>
   get_betacc_t_2004 0.25 7 \<noteq> get_betacc_t_2023 0.25 7 28"
  by (simp add: get_betacc_t_2023_pos get_betacc_t_2004_def)

section \<open>Property reads\<close>

text \<open>
  C9. Reading a derived property returns the instance as it was given, input attributes
  and every other stored attribute alike, so no derived value is stored; reads drop out
  of any history of assignments and reads; two instances that hold equal inputs,
  whatever else they hold and whatever their histories, give equal values, for a float
  and for an array-valued age; and with a float age the value read is the value the
  property functions compute from the five inputs held.
\<close>

theorem reads_are_pure:
  "snd (read p self) = self \<and>
   foldl step self h = foldl assign self (assignments h) \<and>
   (inputs a = inputs b \<longrightarrow> fst (read p a) = fst (read p b)) \<and>
   (attr_age self = Scalar t \<longrightarrow>
      fst (read p self) =
        and_then
          (derived p
            (init_2023 (attr_strength_class self) (attr_strength_development_class self)
               (attr_t_ref self) t (attr_curing_temperature self)))
          (\<lambda>v. Inr (Scalar v)))"
proof (intro conjI impI)
  show "snd (read p self) = self"
    by (rule reads_inputs_frame [OF reads_inputs_read])
next
  show "foldl step self h = foldl assign self (assignments h)"
    by (rule foldl_step_assignments)
next
  assume "inputs a = inputs b"
  then show "fst (read p a) = fst (read p b)"
    by (rule reads_inputs_value [OF reads_inputs_read])
next
  assume "attr_age self = Scalar t"
  then show "fst (read p self) =
        and_then
          (derived p
            (init_2023 (attr_strength_class self) (attr_strength_development_class self)
               (attr_t_ref self) t (attr_curing_temperature self)))
          (\<lambda>v. Inr (Scalar v))"
    by (rule read_scalar_age)
qed

theorem reads_are_pure_witness:
  "fst (read P_f_ck_t
     (foldl step (new_2023 ''C30/37'' ''CN'' 28 (Scalar 28) 20)
        [Read P_f_ck_t, Assign (Set_age (Array [7, 28])), Read P_beta_cc_t])) =
   fst (read P_f_ck_t
     (foldl step
        ((new_2023 ''C12/15'' ''CS'' 28 (Scalar 3) 10)\<lparr>attr_others := [''note'' \<mapsto> Str ''x'']\<rparr>)
        [Assign (Set_strength_class ''C30/37''), Read P_E_cm_t,
         Assign (Set_strength_development_class ''CN''), Assign (Set_age (Array [7, 28])),
         Assign (Set_curing_temperature 20)])) \<and>
   snd (read P_f_ck_t (new_2023 ''C30/37'' ''CN'' 28 (Array [7, 28]) 20)) =
     new_2023 ''C30/37'' ''CN'' 28 (Array [7, 28]) 20 \<and>
   fst (read P_f_ck_t (new_2023 ''C30/37'' ''CN'' 28 (Scalar 28) 20)) = Inr (Scalar (Fin 30)) \<and>
   fst (read P_f_ck_t
     (foldl step (new_2023 ''C30/37'' ''CN'' 28 (Scalar 28) 20)
        [Read P_f_ck_t, Assign (Set_age (Array [7, 28])), Read P_beta_cc_t])) =
     Inr (Array [Fin (exp (- 1 / 2) * 38 - 8), Fin 30])"
proof -
  let ?a = "new_2023 ''C30/37'' ''CN'' 28 (Scalar 28) 20"
  let ?h = "[Read P_f_ck_t, Assign (Set_age (Array [7, 28])), Read P_beta_cc_t]"
  let ?b = "(new_2023 ''C12/15'' ''CS'' 28 (Scalar 3) 10)\<lparr>attr_others := [''note'' \<mapsto> Str ''x'']\<rparr>"
  let ?k = "[Assign (Set_strength_class ''C30/37''), Read P_E_cm_t,
         Assign (Set_strength_development_class ''CN''), Assign (Set_age (Array [7, 28])),
         Assign (Set_curing_temperature 20)]"
  have ha: "foldl step ?a ?h = foldl assign ?a (assignments ?h)"
    using reads_are_pure [of P_f_ck_t ?a ?h] by blast
  have hb: "foldl step ?b ?k = foldl assign ?b (assignments ?k)"
    using reads_are_pure [of P_f_ck_t ?b ?k] by blast
  have "inputs (foldl step ?a ?h) = inputs (foldl step ?b ?k)"
    unfolding ha hb by (simp add: inputs_def new_2023_def)
  then have 1: "fst (read P_f_ck_t (foldl step ?a ?h)) = fst (read P_f_ck_t (foldl step ?b ?k))"
    using reads_are_pure [of P_f_ck_t _ _ "foldl step ?a ?h" "foldl step ?b ?k"] by blast
  have 2: "snd (read P_f_ck_t (new_2023 ''C30/37'' ''CN'' 28 (Array [7, 28]) 20)) =
     new_2023 ''C30/37'' ''CN'' 28 (Array [7, 28]) 20"
    using reads_are_pure [of P_f_ck_t "new_2023 ''C30/37'' ''CN'' 28 (Array [7, 28]) 20"]
    by blast
  have "attr_age ?a = Scalar 28" by (simp add: new_2023_def)
  then have "fst (read P_f_ck_t ?a) =
      and_then (derived P_f_ck_t (init_2023 (attr_strength_class ?a)
        (attr_strength_development_class ?a) (attr_t_ref ?a) 28 (attr_curing_temperature ?a)))
        (\<lambda>v. Inr (Scalar v))"
    using reads_are_pure [of P_f_ck_t ?a _ _ _ 28] by blast
  then have 3: "fst (read P_f_ck_t ?a) = Inr (Scalar (Fin 30))"
    by (simp add: new_2023_def f_ck_t_def f_cm_t_def f_cm_def beta_cc_t_def s_C_def f_ck_def
        t_T_def init_2023_def subscript_def and_then_def item_def F_CK_DICT_2023_def
        S_C_DICT_2023_def get_sC_2023_def get_t_T_2023_def get_betacc_t_2023_pos
        get_fcm_t_2023_def get_fck_t_2023_def get_fcm_2023_def Let_def)
  have "foldl step ?a ?h = new_2023 ''C30/37'' ''CN'' 28 (Array [7, 28]) 20"
    unfolding ha by (simp add: new_2023_def)
  then have 4: "fst (read P_f_ck_t (foldl step ?a ?h)) =
      Inr (Array [Fin (exp (- 1 / 2) * 38 - 8), Fin 30])"
    by (simp only: read_f_ck_t_array)
  from 1 2 3 4 show ?thesis by blast
qed

section \<open>The equivalent age at 20 degrees\<close>

text \<open>
  C10. At a curing temperature of exactly 20 degrees the constant-temperature equivalent
  age of the 2023 variant is the age itself, with and without the linear correction of
  the activation energy (at every age, the positive ones included).
\<close>

theorem get_t_T_2023_at_reference_temperature:
  "get_t_T_2023 t 20.0 lin = Inr t"
  by (simp add: get_t_T_2023_def Let_def)

theorem get_t_T_2023_at_reference_temperature_witness:
  "get_t_T_2023 7 20 True = Inr 7 \<and> get_t_T_2023 7 20 False = Inr 7 \<and>
   t_T (init_2023 ''C30/37'' ''CN'' 28 7 20) = Inr 7"
  using get_t_T_2023_at_reference_temperature [of 7 True]
    get_t_T_2023_at_reference_temperature [of 7 False]
  by (simp add: t_T_def init_2023_def)

end
